theory Spec2Isabelle
  imports Main
begin

section \<open>The highlights document\<close>

text \<open>
  \<open>response.json()\<close> yields Python values built from dict, list, str, int, float,
  bool and None. A dict keeps its items in insertion order, so it is an association
  list here. Python's \<open>None\<close> is \<open>JNull\<close>: a function of the pipeline that returns
  \<open>None\<close> for "nothing" returns the very value a JSON \<open>null\<close> decodes to.
\<close>

datatype pyfloat = Finite int int | PosInf | NegInf | NaN

datatype json =
    JNull
  | JBool bool
  | JInt int
  | JFloat pyfloat
  | JStr string
  | JList "json list"
  | JDict "(string \<times> json) list"

text \<open>
  Python truth value of a decoded document (\<open>if not highlights\<close>): \<open>None\<close>, \<open>False\<close>,
  zero, the empty string, the empty list and the empty dict are false. A float
  \<open>Finite m e\<close> stands for \<open>m * 2^e\<close>; it is zero exactly when \<open>m = 0\<close>.
\<close>

fun truthy :: "json \<Rightarrow> bool" where
  "truthy JNull = False"
| "truthy (JBool b) = b"
| "truthy (JInt n) = (n \<noteq> 0)"
| "truthy (JFloat (Finite m e)) = (m \<noteq> 0)"
| "truthy (JFloat _) = True"
| "truthy (JStr s) = (s \<noteq> [])"
| "truthy (JList its) = (its \<noteq> [])"
| "truthy (JDict kvs) = (kvs \<noteq> [])"

section \<open>pipeline.py: the selector\<close>

definition startswith :: "string \<Rightarrow> string \<Rightarrow> bool" where
  "startswith s p = (take (length p) s = p)"

definition endswith :: "string \<Rightarrow> string \<Rightarrow> bool" where
  "endswith s p = (length p \<le> length s \<and> drop (length s - length p) s = p)"

text \<open>The test of line 49: \<open>v.endswith(".mp4") or v.startswith("http")\<close>.\<close>

definition is_video_url :: "string \<Rightarrow> bool" where
  "is_video_url v = (endswith v ''.mp4'' \<or> startswith v ''http'')"

text \<open>
  \<open>walk\<close> appends to the list \<open>candidates\<close> of the enclosing function; the list is
  passed in and returned. \<open>walk_items\<close> is the loop over \<open>obj.items()\<close>, \<open>walk_list\<close>
  the loop over a list. The string test is made on the values of a dict only: a string
  that is an element of a list, or the document itself, reaches \<open>walk\<close>, which has no
  branch for it.
\<close>

fun walk :: "json \<Rightarrow> string list \<Rightarrow> string list"
  and walk_items :: "(string \<times> json) list \<Rightarrow> string list \<Rightarrow> string list"
  and walk_list :: "json list \<Rightarrow> string list \<Rightarrow> string list" where
  "walk (JDict kvs) candidates = walk_items kvs candidates"
| "walk (JList its) candidates = walk_list its candidates"
| "walk _ candidates = candidates"
| "walk_items [] candidates = candidates"
| "walk_items ((k, v) # kvs) candidates =
     walk_items kvs
       (case v of
          JStr s \<Rightarrow> if is_video_url s then candidates @ [s] else walk v candidates
        | _ \<Rightarrow> walk v candidates)"
| "walk_list [] candidates = candidates"
| "walk_list (it # its) candidates = walk_list its (walk it candidates)"

text \<open>
  \<open>random.choice(candidates)\<close> returns \<open>candidates[i]\<close> for a random index
  \<open>i < len(candidates)\<close>; the random draw is the parameter \<open>r\<close>, reduced to an index.
  The empty list never reaches \<open>random.choice\<close>.
\<close>

definition pick_random_video_from_json :: "nat \<Rightarrow> json \<Rightarrow> string option" where
  "pick_random_video_from_json r highlights_json =
     (let candidates = walk highlights_json []
      in if candidates = [] then None
         else Some (candidates ! (r mod length candidates)))"

text \<open>
  Positions in a document, to say which leaves the traversal classifies: a position is
  the list of child indices from the root (the \<open>i\<close>-th item of a dict, the \<open>i\<close>-th
  element of a list). \<open>qualifying_at doc p\<close>: the value at \<open>p\<close> is a string that
  passes the test of line 49. \<open>classified doc p\<close>: it is, moreover, the value of a dict
  item. \<open>walk_paths\<close> follows \<open>walk\<close> and lists the positions whose strings it appends.
\<close>

fun child :: "json \<Rightarrow> nat \<Rightarrow> json option" where
  "child (JDict kvs) i = (if i < length kvs then Some (snd (kvs ! i)) else None)"
| "child (JList its) i = (if i < length its then Some (its ! i) else None)"
| "child _ i = None"

fun value_at :: "json \<Rightarrow> nat list \<Rightarrow> json option" where
  "value_at j [] = Some j"
| "value_at j (i # p) = (case child j i of None \<Rightarrow> None | Some c \<Rightarrow> value_at c p)"

fun qualifying :: "json \<Rightarrow> bool" where
  "qualifying (JStr s) = is_video_url s"
| "qualifying _ = False"

fun is_dict :: "json \<Rightarrow> bool" where
  "is_dict (JDict kvs) = True"
| "is_dict _ = False"

definition qualifying_at :: "json \<Rightarrow> nat list \<Rightarrow> bool" where
  "qualifying_at j p = (case value_at j p of Some v \<Rightarrow> qualifying v | None \<Rightarrow> False)"

definition classified :: "json \<Rightarrow> nat list \<Rightarrow> bool" where
  "classified j p =
     (p \<noteq> [] \<and>
      (case value_at j (butlast p) of Some d \<Rightarrow> is_dict d | None \<Rightarrow> False) \<and>
      qualifying_at j p)"





section \<open>Paths and object keys\<close>

text \<open>\<open>s.split(c)\<close> of Python: the pieces between the separators, never an empty list.\<close>

fun split_on :: "char \<Rightarrow> string \<Rightarrow> string list" where
  "split_on c [] = [[]]"
| "split_on c (x # xs) =
     (if x = c then [] # split_on c xs
      else (case split_on c xs of
              [] \<Rightarrow> [[x]]
            | p # ps \<Rightarrow> (x # p) # ps))"

text \<open>
  \<open>pathlib.Path(p).name\<close> on POSIX: the path is split at \<open>/\<close>, empty parts and
  \<open>.\<close> parts are dropped, and the name is the last part left, or the empty string.
\<close>

definition path_parts :: "string \<Rightarrow> string list" where
  "path_parts p = filter (\<lambda>x. x \<noteq> [] \<and> x \<noteq> ''.'') (split_on CHR ''/'' p)"

definition path_name :: "string \<Rightarrow> string" where
  "path_name p = (let parts = path_parts p in if parts = [] then [] else last parts)"

text \<open>\<open>os.path.join(a, b)\<close> of posixpath, for two arguments.\<close>

definition os_path_join :: "string \<Rightarrow> string \<Rightarrow> string" where
  "os_path_join a b =
     (if startswith b ''/'' then b
      else if a = [] \<or> endswith a ''/'' then a @ b
      else a @ ''/'' @ b)"

text \<open>
  \<open>datetime.now().strftime('%Y%m%d_%H%M%S')\<close>. A datetime holds a year in 1..9999, a
  month, a day, an hour, a minute and a second; \<open>%m %d %H %M %S\<close> print two decimal
  digits, \<open>%Y\<close> prints the year (four digits from the year 1000 on).
\<close>

record datetime =
  year :: nat
  month :: nat
  day :: nat
  hour :: nat
  minute :: nat
  second :: nat

definition digit :: "nat \<Rightarrow> char" where
  "digit d = ''0123456789'' ! (d mod 10)"

definition dec2 :: "nat \<Rightarrow> string" where
  "dec2 n = [digit (n div 10), digit n]"

definition dec4 :: "nat \<Rightarrow> string" where
  "dec4 n = [digit (n div 1000), digit (n div 100), digit (n div 10), digit n]"

definition strftime_stamp :: "datetime \<Rightarrow> string" where
  "strftime_stamp t =
     dec4 (year t) @ dec2 (month t) @ dec2 (day t) @ ''_'' @
     dec2 (hour t) @ dec2 (minute t) @ dec2 (second t)"


text \<open>The three keys of \<open>main\<close> and \<open>upload_logs\<close> (lines 111, 129 and 92).\<close>

definition metadata_key :: "string \<Rightarrow> string \<Rightarrow> string" where
  "metadata_key league date = ''highlights/'' @ league @ ''/'' @ date @ ''/highlights.json''"

definition video_key :: "string \<Rightarrow> string \<Rightarrow> string \<Rightarrow> string" where
  "video_key league date filename = ''incoming/'' @ league @ ''/'' @ date @ ''/'' @ filename"

definition log_key :: "datetime \<Rightarrow> string" where
  "log_key t = ''pipeline_log_'' @ strftime_stamp t @ ''.txt''"



text \<open>
  The file name the specification derives from a selected URL: its last path segment,
  or the literal \<open>video.mp4\<close> (line 124).
\<close>

definition video_filename :: "string \<Rightarrow> string" where
  "video_filename video_url =
     (let name = path_name video_url in if name = [] then ''video.mp4'' else name)"

text \<open>A file name proper: not empty, not \<open>.\<close>, and without a separator.\<close>

definition plain_name :: "string \<Rightarrow> bool" where
  "plain_name f = (f \<noteq> [] \<and> f \<noteq> ''.'' \<and> CHR ''/'' \<notin> set f)"

section \<open>pipeline.py: collaborators, effects and exceptions\<close>

text \<open>
  The exceptions the handlers of the code tell apart: \<open>requests\<close>' HTTPError, botocore's
  ClientError, the RuntimeError that \<open>main\<close> raises, the errors of Python's own
  operations, and any other exception (a connection error, an OSError, a botocore error
  that is not a ClientError). Each carries its message, \<open>str(e)\<close>.
\<close>

datatype exn =
    HTTPError string
  | ClientError string
  | RuntimeError string
  | KeyError string
  | TypeError string
  | ValueError string
  | OtherException string

fun exn_str :: "exn \<Rightarrow> string" where
  "exn_str (HTTPError m) = m"
| "exn_str (ClientError m) = m"
| "exn_str (RuntimeError m) = m"
| "exn_str (KeyError m) = m"
| "exn_str (TypeError m) = m"
| "exn_str (ValueError m) = m"
| "exn_str (OtherException m) = m"

text \<open>
  What one run reads from outside: the configuration (class \<open>Config\<close>; an unset bucket
  is \<open>None\<close>), and what each collaborator answers. \<open>http_get_json url\<close> is the outcome
  of \<open>requests.get\<close>, \<open>raise_for_status\<close> and \<open>response.json()\<close> together;
  \<open>http_download url\<close>, \<open>write_file path\<close>, \<open>s3_upload_file bucket key\<close> and
  \<open>s3_put_object bucket key body\<close> are \<open>None\<close> when the operation succeeds and the
  exception it raises otherwise (for S3, creating the client included); \<open>mktemp\<close> and
  \<open>mkdtemp\<close> are the names that \<open>tempfile\<close> hands out; \<open>random_draw\<close> is what the
  random generator gives; \<open>datetime_now n\<close> is the clock at the \<open>n\<close>-th reading.
\<close>

record env =
  DEFAULT_LEAGUE :: string
  DEFAULT_DATE :: string
  RAPIDAPI_HOST :: string
  METADATA_BUCKET :: "string option"
  VIDEOS_BUCKET :: "string option"
  LOGS_BUCKET :: "string option"
  http_get_json :: "string \<Rightarrow> exn + json"
  http_download :: "string \<Rightarrow> exn option"
  write_file :: "string \<Rightarrow> exn option"
  mktemp :: string
  mkdtemp :: string
  s3_upload_file :: "string \<Rightarrow> string \<Rightarrow> exn option"
  s3_put_object :: "string \<Rightarrow> string \<Rightarrow> string \<Rightarrow> exn option"
  random_draw :: nat
  datetime_now :: "nat \<Rightarrow> datetime"

text \<open>\<open>if Config.X_BUCKET\<close>: \<open>None\<close> and the empty string are false.\<close>

fun bucket_set :: "string option \<Rightarrow> bool" where
  "bucket_set None = False"
| "bucket_set (Some b) = (b \<noteq> [])"

datatype level = INFO | WARNING | ERROR

datatype s3_request =
    UploadFile string string string
  | PutObject string string string

fun request_key :: "s3_request \<Rightarrow> string" where
  "request_key (UploadFile bucket key local_path) = key"
| "request_key (PutObject bucket key body) = key"

text \<open>
  What one run does to the outside: the calls of the module's logger in order (the
  process's diagnostic stream), the requests sent to S3 in order, those of them that
  succeeded (the objects stored), and the number of clock readings so far. Local files
  are seen through the answers of \<open>write_file\<close>, \<open>http_download\<close> and \<open>s3_upload_file\<close>
  only.
\<close>

record world =
  log_records :: "(level \<times> string) list"
  s3_requests :: "s3_request list"
  s3_objects :: "s3_request list"
  clock_reads :: nat

definition world0 :: world where
  "world0 = \<lparr>log_records = [], s3_requests = [], s3_objects = [], clock_reads = 0\<rparr>"

definition logger_info :: "string \<Rightarrow> world \<Rightarrow> world" where
  "logger_info msg w = w\<lparr>log_records := log_records w @ [(INFO, msg)]\<rparr>"

definition logger_warning :: "string \<Rightarrow> world \<Rightarrow> world" where
  "logger_warning msg w = w\<lparr>log_records := log_records w @ [(WARNING, msg)]\<rparr>"

definition logger_error :: "string \<Rightarrow> world \<Rightarrow> world" where
  "logger_error msg w = w\<lparr>log_records := log_records w @ [(ERROR, msg)]\<rparr>"

section \<open>pipeline.py: the steps\<close>

text \<open>
  \<open>fetch_highlights\<close> catches every exception and returns \<open>None\<close>, here \<open>JNull\<close>.
\<close>

definition highlights_url :: "env \<Rightarrow> string" where
  "highlights_url env =
     ''https://'' @ RAPIDAPI_HOST env @ ''/football.league?league='' @ DEFAULT_LEAGUE env @
     ''&date='' @ DEFAULT_DATE env"

definition fetch_highlights :: "env \<Rightarrow> world \<Rightarrow> json \<times> world" where
  "fetch_highlights env w =
     (let url = highlights_url env;
          w1 = logger_info (''Fetching highlights from '' @ url) w
      in case http_get_json env url of
           Inr data \<Rightarrow> (data, logger_info ''Highlights fetched successfully'' w1)
         | Inl e \<Rightarrow>
             (case e of
                HTTPError m \<Rightarrow>
                  (JNull, logger_error (''HTTP error fetching highlights: '' @ exn_str e) w1)
              | _ \<Rightarrow> (JNull, logger_error (''Error fetching highlights: '' @ exn_str e) w1)))"

text \<open>\<open>download_video\<close> catches every exception too: \<open>dest_path\<close> or \<open>None\<close>.\<close>

definition download_video :: "env \<Rightarrow> string \<Rightarrow> string \<Rightarrow> world \<Rightarrow> string option \<times> world" where
  "download_video env url dest_path w =
     (let w1 = logger_info (''Downloading video '' @ url) w
      in case http_download env url of
           None \<Rightarrow> (Some dest_path, logger_info (''Video downloaded to '' @ dest_path) w1)
         | Some e \<Rightarrow> (None, logger_error (''Failed to download video: '' @ exn_str e) w1))"

text \<open>
  \<open>upload_file_to_s3\<close> and \<open>upload_logs\<close> catch \<open>ClientError\<close> only: any other exception
  leaves the function.
\<close>

definition upload_file_to_s3 ::
  "env \<Rightarrow> string \<Rightarrow> string \<Rightarrow> string \<Rightarrow> world \<Rightarrow> (exn + unit) \<times> world" where
  "upload_file_to_s3 env bucket key local_path w =
     (let req = UploadFile bucket key local_path;
          w1 = w\<lparr>s3_requests := s3_requests w @ [req]\<rparr>
      in case s3_upload_file env bucket key of
           None \<Rightarrow>
             (Inr (),
              logger_info (''Uploaded '' @ local_path @ '' to s3://'' @ bucket @ ''/'' @ key)
                (w1\<lparr>s3_objects := s3_objects w1 @ [req]\<rparr>))
         | Some e \<Rightarrow>
             (case e of
                ClientError m \<Rightarrow>
                  (Inr (),
                   logger_error (''Failed to upload '' @ local_path @ '' to S3: '' @ exn_str e) w1)
              | _ \<Rightarrow> (Inl e, w1)))"

definition upload_logs :: "env \<Rightarrow> string \<Rightarrow> world \<Rightarrow> (exn + unit) \<times> world" where
  "upload_logs env log_content w =
     (if \<not> bucket_set (LOGS_BUCKET env)
      then (Inr (), logger_warning ''LOGS_BUCKET not configured, skipping log upload'' w)
      else
        let bucket = the (LOGS_BUCKET env);
            file_name = log_key (datetime_now env (clock_reads w));
            req = PutObject bucket file_name log_content;
            w1 = w\<lparr>s3_requests := s3_requests w @ [req], clock_reads := Suc (clock_reads w)\<rparr>
        in case s3_put_object env bucket file_name log_content of
             None \<Rightarrow>
               (Inr (),
                logger_info (''Logs uploaded to s3://'' @ bucket @ ''/'' @ file_name)
                  (w1\<lparr>s3_objects := s3_objects w1 @ [req]\<rparr>))
           | Some e \<Rightarrow>
               (case e of
                  ClientError m \<Rightarrow>
                    (Inr (), logger_error (''Failed to upload logs: '' @ exn_str e) w1)
                | _ \<Rightarrow> (Inl e, w1)))"

section \<open>pipeline.py: main\<close>

text \<open>Step 2 of \<open>main\<close> (lines 110 to 115).\<close>

definition save_highlights :: "env \<Rightarrow> json \<Rightarrow> world \<Rightarrow> (exn + unit) \<times> world" where
  "save_highlights env highlights w =
     (if bucket_set (METADATA_BUCKET env)
      then
        let s3_key = metadata_key (DEFAULT_LEAGUE env) (DEFAULT_DATE env);
            upload_file_path = mktemp env
        in case write_file env upload_file_path of
             Some e \<Rightarrow> (Inl e, w)
           | None \<Rightarrow>
               upload_file_to_s3 env (the (METADATA_BUCKET env)) s3_key upload_file_path w
      else (Inr (), w))"

text \<open>
  Steps 4 and 5 of \<open>main\<close> (lines 123 to 130). The result of \<open>download_video\<close> is not
  looked at.
\<close>

definition ingest_video :: "env \<Rightarrow> string \<Rightarrow> world \<Rightarrow> (exn + unit) \<times> world" where
  "ingest_video env video_url w =
     (let tmpdir = mkdtemp env;
          name = path_name video_url;
          local_video_path = os_path_join tmpdir (if name = [] then ''video.mp4'' else name);
          w1 = snd (download_video env video_url local_video_path w)
      in if bucket_set (VIDEOS_BUCKET env)
         then
           let s3_video_key =
                 video_key (DEFAULT_LEAGUE env) (DEFAULT_DATE env) (path_name local_video_path)
           in upload_file_to_s3 env (the (VIDEOS_BUCKET env)) s3_video_key local_video_path w1
         else (Inr (), w1))"

text \<open>The body of the \<open>try\<close> of \<open>main\<close> (lines 104 to 133).\<close>

definition main_try :: "env \<Rightarrow> world \<Rightarrow> (exn + unit) \<times> world" where
  "main_try env w =
     (let (highlights, w1) = fetch_highlights env w
      in if \<not> truthy highlights
         then (Inl (RuntimeError ''No highlights fetched from API''), w1)
         else
           (case save_highlights env highlights w1 of
              (Inl e, w2) \<Rightarrow> (Inl e, w2)
            | (Inr u, w2) \<Rightarrow>
                (case pick_random_video_from_json (random_draw env) highlights of
                   None \<Rightarrow> (Inl (RuntimeError ''No video URL found in highlights''), w2)
                 | Some video_url \<Rightarrow>
                     if video_url = []
                     then (Inl (RuntimeError ''No video URL found in highlights''), w2)
                     else
                       (case ingest_video env video_url w2 of
                          (Inl e, w3) \<Rightarrow> (Inl e, w3)
                        | (Inr u', w3) \<Rightarrow>
                            upload_logs env ''Pipeline completed successfully''
                              (logger_info ''Pipeline completed successfully'' w3)))))"

text \<open>
  \<open>main\<close>: \<open>Inr ()\<close> when it returns, \<open>Inl e\<close> when the exception \<open>e\<close> leaves it. The
  handler of line 135 catches every exception of the \<open>try\<close>; nothing catches what the
  handler's own \<open>upload_logs\<close> raises.
\<close>

definition main :: "env \<Rightarrow> world \<Rightarrow> (exn + unit) \<times> world" where
  "main env w =
     (let w0 = logger_info
                 (''Starting pipeline for '' @ DEFAULT_LEAGUE env @ '' '' @ DEFAULT_DATE env) w
      in case main_try env w0 of
           (Inr u, w1) \<Rightarrow> (Inr (), w1)
         | (Inl e, w1) \<Rightarrow>
             upload_logs env (''Pipeline failed: '' @ exn_str e)
               (logger_error (''Pipeline failed: '' @ exn_str e) w1))"

definition run :: "env \<Rightarrow> (exn + unit) \<times> world" where
  "run env = main env world0"

text \<open>
  What \<open>fetch_highlights\<close> returns and what the selector then picks in a run, and the
  keys of the S3 requests of a run, in order.
\<close>

definition fetched :: "env \<Rightarrow> json" where
  "fetched env = (case http_get_json env (highlights_url env) of Inr data \<Rightarrow> data | Inl e \<Rightarrow> JNull)"

definition selected :: "env \<Rightarrow> string option" where
  "selected env = pick_random_video_from_json (random_draw env) (fetched env)"



definition keys_of :: "world \<Rightarrow> string set" where
  "keys_of w = request_key ` set (s3_requests w)"


text \<open>
  An example run: the document of the specification's scenario, all three buckets
  configured, every collaborator succeeding, the clock at 2024-05-01 12:34:56.
\<close>

definition demo_env :: env where
  "demo_env =
     \<lparr>DEFAULT_LEAGUE = ''Superettan'',
      DEFAULT_DATE = ''2024-05-01'',
      RAPIDAPI_HOST = ''sport-highlights-api.p.rapidapi.com'',
      METADATA_BUCKET = Some ''meta'',
      VIDEOS_BUCKET = Some ''videos'',
      LOGS_BUCKET = Some ''logs'',
      http_get_json = (\<lambda>url. Inr (JDict [(''events'',
         JList [JDict [(''clip'', JStr ''http://x/a.mp4'')],
                JDict [(''clip'', JStr ''http://x/b.mp4'')]])])),
      http_download = (\<lambda>url. None),
      write_file = (\<lambda>path. None),
      mktemp = ''/tmp/tmpk3v9.json'',
      mkdtemp = ''/tmp/tmpq7x2'',
      s3_upload_file = (\<lambda>bucket key. None),
      s3_put_object = (\<lambda>bucket key body. None),
      random_draw = 0,
      datetime_now = (\<lambda>n. \<lparr>year = 2024, month = 5, day = 1, hour = 12, minute = 34, second = 56\<rparr>)\<rparr>"

definition empty_doc_env :: env where
  "empty_doc_env = demo_env\<lparr>http_get_json := \<lambda>url. Inr (JDict [])\<rparr>"




definition download_fails_env :: env where
  "download_fails_env = demo_env\<lparr>VIDEOS_BUCKET := None,
     http_download := \<lambda>url. Some (HTTPError ''404 Client Error: Not Found'')\<rparr>"

definition log_upload_unreachable_env :: env where
  "log_upload_unreachable_env = demo_env\<lparr>s3_put_object :=
     \<lambda>bucket key body. Some (OtherException ''Could not connect to the endpoint URL'')\<rparr>"


text \<open>
  The bodies of the log objects a run sends, and what makes a body the final summary
  of a run: it is one of the two messages of lines 132 to 137, and the logger got the
  same message.
\<close>

fun put_body :: "s3_request \<Rightarrow> string list" where
  "put_body (PutObject bucket key body) = [body]"
| "put_body (UploadFile bucket key local_path) = []"

definition put_bodies :: "world \<Rightarrow> string list" where
  "put_bodies w = concat (map put_body (s3_requests w))"



section \<open>mediaconvert_client.py\<close>

text \<open>\<open>obj[k]\<close> for a string key: KeyError on a dict without it, TypeError elsewhere.\<close>

fun py_getitem :: "json \<Rightarrow> string \<Rightarrow> exn + json" where
  "py_getitem (JDict kvs) k =
     (case map_of kvs k of None \<Rightarrow> Inl (KeyError k) | Some v \<Rightarrow> Inr v)"
| "py_getitem _ k = Inl (TypeError k)"

text \<open>
  The client: \<open>create_job\<close> answers a job description, \<open>get_job job_id n\<close> is the answer
  to the \<open>n\<close>-th status query of one call of \<open>poll_job\<close>.
\<close>

record mc_client =
  create_job :: "json \<Rightarrow> exn + json"
  get_job :: "string \<Rightarrow> nat \<Rightarrow> exn + json"

text \<open>The dict \<open>job_settings\<close> of \<open>submit_job\<close> (lines 20 to 42).\<close>

definition job_settings :: "string \<Rightarrow> string \<Rightarrow> string \<Rightarrow> json" where
  "job_settings role_arn input_s3 output_s3_prefix =
     JDict [
       (''Role'', JStr role_arn),
       (''Settings'', JDict [
          (''Inputs'', JList [JDict [(''FileInput'', JStr input_s3)]]),
          (''OutputGroups'', JList [JDict [
             (''Name'', JStr ''File Group''),
             (''OutputGroupSettings'', JDict [
                (''Type'', JStr ''FILE_GROUP_SETTINGS''),
                (''FileGroupSettings'', JDict [(''Destination'', JStr output_s3_prefix)])]),
             (''Outputs'', JList [
                JDict [(''ContainerSettings'', JDict [(''Container'', JStr ''MP4'')]),
                       (''VideoDescription'', JDict [(''Width'', JInt 1280), (''Height'', JInt 720)])],
                JDict [(''ContainerSettings'', JDict [(''Container'', JStr ''MP4'')]),
                       (''VideoDescription'', JDict [(''Width'', JInt 854), (''Height'', JInt 480)])]])]])])]"

definition submit_job :: "mc_client \<Rightarrow> string \<Rightarrow> string \<Rightarrow> string \<Rightarrow> exn + json" where
  "submit_job client role_arn input_s3 output_s3_prefix =
     (case create_job client (job_settings role_arn input_s3 output_s3_prefix) of
        Inl e \<Rightarrow> Inl e
      | Inr resp \<Rightarrow>
          (case py_getitem resp ''Job'' of
             Inl e \<Rightarrow> Inl e
           | Inr job \<Rightarrow> py_getitem job ''Id''))"

text \<open>
  The output the specification asks for per rendition: a container and a resolution,
  nothing else; and the outputs of the one output group of a job description.
\<close>

definition rendition_output :: "int \<times> int \<Rightarrow> json" where
  "rendition_output r =
     JDict [(''ContainerSettings'', JDict [(''Container'', JStr ''MP4'')]),
            (''VideoDescription'', JDict [(''Width'', JInt (fst r)), (''Height'', JInt (snd r))])]"

definition job_inputs :: "json \<Rightarrow> exn + json" where
  "job_inputs settings =
     (case py_getitem settings ''Settings'' of
        Inl e \<Rightarrow> Inl e
      | Inr s \<Rightarrow> py_getitem s ''Inputs'')"

definition job_output_groups :: "json \<Rightarrow> exn + json" where
  "job_output_groups settings =
     (case py_getitem settings ''Settings'' of
        Inl e \<Rightarrow> Inl e
      | Inr s \<Rightarrow> py_getitem s ''OutputGroups'')"

definition job_outputs :: "json \<Rightarrow> json list option" where
  "job_outputs settings =
     (case job_output_groups settings of
        Inr (JList [grp]) \<Rightarrow>
          (case py_getitem grp ''Outputs'' of
             Inr (JList outs) \<Rightarrow> Some outs
           | _ \<Rightarrow> None)
      | _ \<Rightarrow> None)"

text \<open>
  \<open>poll_job\<close>. Time is counted in whole units and passes in \<open>time.sleep\<close> only: a
  status query takes none. \<open>time.sleep\<close> raises ValueError on a negative length. The
  loop has no bound of its own, so the function is partial: \<open>None\<close> is a call that never
  returns.
\<close>

record mc_world =
  now :: int
  get_job_calls :: nat

definition job_status :: "json \<Rightarrow> exn + json" where
  "job_status res =
     (case py_getitem res ''Job'' of
        Inl e \<Rightarrow> Inl e
      | Inr job \<Rightarrow> py_getitem job ''Status'')"

partial_function (option) poll_loop ::
  "mc_client \<Rightarrow> string \<Rightarrow> int \<Rightarrow> int \<Rightarrow> int \<Rightarrow> mc_world \<Rightarrow>
   ((exn + json \<times> json) \<times> mc_world) option" where
  "poll_loop client job_id interval timeout started w =
     (let w1 = w\<lparr>get_job_calls := Suc (get_job_calls w)\<rparr>
      in case get_job client job_id (get_job_calls w) of
           Inl e \<Rightarrow> Some (Inl e, w1)
         | Inr res \<Rightarrow>
             (case job_status res of
                Inl e \<Rightarrow> Some (Inl e, w1)
              | Inr status \<Rightarrow>
                  if status = JStr ''COMPLETE'' \<or> status = JStr ''ERROR'' \<or>
                     status = JStr ''CANCELED''
                  then Some (Inr (status, res), w1)
                  else if now w1 - started > timeout
                  then Some (Inr (JStr ''TIMEOUT'', res), w1)
                  else if interval < 0
                  then Some (Inl (ValueError ''sleep length must be non-negative''), w1)
                  else poll_loop client job_id interval timeout started
                         (w1\<lparr>now := now w1 + interval\<rparr>)))"

declare poll_loop.simps [code]

definition poll_job ::
  "mc_client \<Rightarrow> string \<Rightarrow> int \<Rightarrow> int \<Rightarrow> mc_world \<Rightarrow> ((exn + json \<times> json) \<times> mc_world) option" where
  "poll_job client job_id interval timeout w =
     poll_loop client job_id interval timeout (now w) w"

text \<open>A status query that succeeds: the answer has a status under \<open>Job\<close>.\<close>

definition query_ok :: "exn + json \<Rightarrow> bool" where
  "query_ok r = (case r of Inl e \<Rightarrow> False
                 | Inr res \<Rightarrow> (case job_status res of Inl e \<Rightarrow> False | Inr s \<Rightarrow> True))"

definition terminal_statuses :: "json list" where
  "terminal_statuses = [JStr ''COMPLETE'', JStr ''ERROR'', JStr ''CANCELED'', JStr ''TIMEOUT'']"

definition progressing_response :: json where
  "progressing_response = JDict [(''Job'', JDict [(''Status'', JStr ''PROGRESSING'')])]"

definition always_progressing :: mc_client where
  "always_progressing =
     \<lparr>create_job = (\<lambda>d. Inl (OtherException ''not called'')),
      get_job = (\<lambda>job_id n. Inr progressing_response)\<rparr>"

section \<open>Properties of the transcode client\<close>

lemma poll_loop_returns:
  assumes "0 < interval"
    and "\<And>n. query_ok (get_job client job_id n)"
    and "now w - started \<le> timeout + interval"
  shows "\<exists>status res w'.
           poll_loop client job_id interval timeout started w = Some (Inr (status, res), w') \<and>
           status \<in> set terminal_statuses \<and> now w' - started \<le> timeout + interval"
  using assms(3)
proof (induction "nat (timeout + interval + 1 - (now w - started))" arbitrary: w rule: less_induct)
  case less
  obtain res status where res: "get_job client job_id (get_job_calls w) = Inr res"
    and st: "job_status res = Inr status"
    using assms(2)[of "get_job_calls w"]
    by (auto simp: query_ok_def split: sum.splits)
  let ?w1 = "w\<lparr>get_job_calls := Suc (get_job_calls w)\<rparr>"
  show ?case
  proof (cases "status = JStr ''COMPLETE'' \<or> status = JStr ''ERROR'' \<or> status = JStr ''CANCELED''")
    case True
    then show ?thesis
      using res st less.prems
      by (subst poll_loop.simps) (auto simp: terminal_statuses_def)
  next
    case running: False
    show ?thesis
    proof (cases "now w - started > timeout")
      case True
      then show ?thesis
        using res st less.prems running
        by (subst poll_loop.simps) (auto simp: terminal_statuses_def)
    next
      case False
      let ?w2 = "?w1\<lparr>now := now ?w1 + interval\<rparr>"
      have step: "poll_loop client job_id interval timeout started w =
                  poll_loop client job_id interval timeout started ?w2"
        using res st running False assms(1)
        by (subst poll_loop.simps) (simp add: Let_def)
      have bound: "now ?w2 - started \<le> timeout + interval"
        using False by simp
      have decr: "nat (timeout + interval + 1 - (now ?w2 - started))
                  < nat (timeout + interval + 1 - (now w - started))"
        using False assms(1) by simp
      from less.hyps[OF decr bound] show ?thesis
        unfolding step .
    qed
  qed
qed

lemma always_progressing_timeout:
  "poll_job always_progressing ''job-1'' 10 30 \<lparr>now = 0, get_job_calls = 0\<rparr> =
     Some (Inr (JStr ''TIMEOUT'', progressing_response), \<lparr>now = 40, get_job_calls = 5\<rparr>)"
  by (simp add: poll_job_def poll_loop.simps always_progressing_def job_status_def
      progressing_response_def)

text \<open>
  C3. With a positive interval, a timeout that is not negative and status queries that
  all succeed, whatever they answer, \<open>poll_job\<close> returns; what it returns is one of
  COMPLETE, ERROR, CANCELED and TIMEOUT; and the time that has passed when it returns
  is at most \<open>timeout + interval\<close>.
\<close>

theorem poll_job_returns_terminal_in_time:
  assumes "0 < interval" and "0 \<le> timeout"
    and "\<forall>n. query_ok (get_job client job_id n)"
  shows "\<exists>status res w'.
           poll_job client job_id interval timeout w = Some (Inr (status, res), w') \<and>
           status \<in> set terminal_statuses \<and> now w' - now w \<le> timeout + interval"
  unfolding poll_job_def
  using poll_loop_returns[of interval client job_id w "now w" timeout] assms
  by simp

text \<open>
  The scenario of the specification: interval 10, timeout 30, a job that stays
  PROGRESSING. The fifth query, at time 40, is the first one later than the timeout.
\<close>

theorem poll_job_returns_terminal_in_time_witness:
  "(0::int) < 10 \<and> (0::int) \<le> 30 \<and>
   poll_job always_progressing ''job-1'' 10 30 \<lparr>now = 0, get_job_calls = 0\<rparr> =
     Some (Inr (JStr ''TIMEOUT'', progressing_response), \<lparr>now = 40, get_job_calls = 5\<rparr>) \<and>
   (\<exists>status res w'.
      poll_job always_progressing ''job-1'' 10 30 \<lparr>now = 0, get_job_calls = 0\<rparr> =
        Some (Inr (status, res), w') \<and>
      status \<in> set terminal_statuses \<and> now w' - 0 \<le> 30 + 10)"
proof -
  have q: "\<forall>n. query_ok (get_job always_progressing ''job-1'' n)"
    by (simp add: query_ok_def always_progressing_def job_status_def progressing_response_def)
  have i: "(0::int) < 10" and t: "(0::int) \<le> 30" by simp_all
  from poll_job_returns_terminal_in_time[OF i t q, of "\<lparr>now = 0, get_job_calls = 0\<rparr>"]
  show ?thesis using always_progressing_timeout by simp
qed

text \<open>
  C9, as stated: the outputs of the job are the requested renditions, one output each.
  \<open>submit_job\<close> has no parameter for renditions; a caller who wants one 1920 x 1080
  rendition gets a job whose outputs are not that list.
\<close>

theorem submit_job_renditions_counterexample:
  "job_outputs (job_settings ''arn:aws:iam::1:role/mc'' ''s3://videos/incoming/a.mp4''
     ''s3://videos/processed/'') \<noteq> Some (map rendition_output [(1920, 1080)])"
  by (simp add: job_outputs_def job_output_groups_def job_settings_def rendition_output_def)

text \<open>
  C9, amended. The job description that \<open>submit_job\<close> sends has exactly one input,
  the given one, and exactly one output group; the group has exactly two outputs,
  1280 x 720 and 854 x 480 in this order, each made of a container (MP4) and a
  resolution only.
\<close>

theorem submit_job_two_fixed_outputs:
  "job_inputs (job_settings role_arn input_s3 output_s3_prefix) =
     Inr (JList [JDict [(''FileInput'', JStr input_s3)]]) \<and>
   job_outputs (job_settings role_arn input_s3 output_s3_prefix) =
     Some (map rendition_output [(1280, 720), (854, 480)]) \<and>
   submit_job client role_arn input_s3 output_s3_prefix =
     (case create_job client (job_settings role_arn input_s3 output_s3_prefix) of
        Inl e \<Rightarrow> Inl e
      | Inr resp \<Rightarrow>
          (case py_getitem resp ''Job'' of Inl e \<Rightarrow> Inl e | Inr job \<Rightarrow> py_getitem job ''Id''))"
  by (simp add: job_inputs_def job_outputs_def job_output_groups_def job_settings_def
      rendition_output_def submit_job_def)

section \<open>Properties of the selector\<close>













lemma classified_Nil [simp]: "\<not> classified j []"
  by (simp add: classified_def)

lemma classified_leaf [simp]:
  "\<not> classified JNull p" "\<not> classified (JBool b) p" "\<not> classified (JInt n) p"
  "\<not> classified (JFloat f) p" "\<not> classified (JStr s) p"
  "\<not> classified (JDict []) p" "\<not> classified (JList []) p"
  by (cases p rule: rev_cases; cases "butlast p"; simp add: classified_def qualifying_at_def)+












text \<open>
  C2. The document \<open>{"clips": ["http://x/a.mp4"]}\<close> holds a string that ends in
  \<open>.mp4\<close> and begins with \<open>http\<close>, as an element of a list; the selector returns
  \<open>None\<close> for it, whatever the random draw.
\<close>

theorem pick_random_video_misses_list_element:
  "is_video_url ''http://x/a.mp4'' \<and>
   pick_random_video_from_json r (JDict [(''clips'', JList [JStr ''http://x/a.mp4''])]) = None"
  by (simp add: pick_random_video_from_json_def is_video_url_def startswith_def)

section \<open>Properties of paths and keys\<close>

lemma split_on_nonempty: "split_on c s \<noteq> []"
  by (induction s) (auto split: list.splits)

lemma split_on_no_sep: "x \<in> set (split_on c s) \<Longrightarrow> c \<notin> set x"
  by (induction s arbitrary: x) (auto split: list.splits if_splits)

lemma split_on_single: "c \<notin> set s \<Longrightarrow> split_on c s = [s]"
  by (induction s) auto

lemma split_on_append: "split_on c (a @ c # b) = split_on c a @ split_on c b"
  by (induction a) (auto split: list.splits simp: split_on_nonempty)

lemma path_name_plain: "plain_name f \<Longrightarrow> path_name f = f"
  by (simp add: plain_name_def path_name_def path_parts_def split_on_single)

lemma path_name_dir_plain: "plain_name f \<Longrightarrow> path_name (d @ CHR ''/'' # f) = f"
  by (simp add: plain_name_def path_name_def path_parts_def split_on_single split_on_append)

lemma endswith_slash: "endswith d ''/'' \<Longrightarrow> \<exists>d'. d = d' @ ''/''"
proof -
  assume "endswith d ''/''"
  then have "1 \<le> length d" "drop (length d - 1) d = ''/''"
    by (simp_all add: endswith_def)
  then have "d = take (length d - 1) d @ ''/''"
    by (metis append_take_drop_id)
  then show ?thesis by blast
qed

lemma path_name_join: "plain_name f \<Longrightarrow> path_name (os_path_join d f) = f"
proof -
  assume f: "plain_name f"
  then have ns: "\<not> startswith f ''/''"
    by (cases f) (auto simp: plain_name_def startswith_def)
  show ?thesis
  proof (cases "d = []")
    case True
    with f ns show ?thesis by (simp add: os_path_join_def path_name_plain)
  next
    case False
    show ?thesis
    proof (cases "endswith d ''/''")
      case True
      then obtain d' where "d = d' @ ''/''" using endswith_slash by blast
      with f ns True False show ?thesis
        by (simp add: os_path_join_def path_name_dir_plain)
    next
      case no: False
      with f ns False show ?thesis
        by (simp add: os_path_join_def path_name_dir_plain)
    qed
  qed
qed

lemma path_name_is_plain: "path_name u \<noteq> [] \<Longrightarrow> plain_name (path_name u)"
proof -
  assume ne: "path_name u \<noteq> []"
  then have parts: "path_parts u \<noteq> []"
    by (auto simp: path_name_def Let_def)
  then have "path_name u \<in> set (path_parts u)"
    by (simp add: path_name_def)
  then show ?thesis
    using split_on_no_sep[of "path_name u" "CHR ''/''" u]
    by (auto simp: path_parts_def plain_name_def)
qed

lemma video_filename_plain: "plain_name (video_filename u)"
  using path_name_is_plain[of u]
  by (auto simp: video_filename_def Let_def plain_name_def)

lemma local_video_path_name:
  "path_name (os_path_join d (video_filename u)) = video_filename u"
  by (rule path_name_join[OF video_filename_plain])

section \<open>Properties of the orchestrator: the steps\<close>

lemma logger_fields [simp]:
  "s3_requests (logger_info m w) = s3_requests w"
  "s3_requests (logger_warning m w) = s3_requests w"
  "s3_requests (logger_error m w) = s3_requests w"
  "s3_objects (logger_info m w) = s3_objects w"
  "s3_objects (logger_warning m w) = s3_objects w"
  "s3_objects (logger_error m w) = s3_objects w"
  "clock_reads (logger_info m w) = clock_reads w"
  "clock_reads (logger_warning m w) = clock_reads w"
  "clock_reads (logger_error m w) = clock_reads w"
  "log_records (logger_info m w) = log_records w @ [(INFO, m)]"
  "log_records (logger_warning m w) = log_records w @ [(WARNING, m)]"
  "log_records (logger_error m w) = log_records w @ [(ERROR, m)]"
  by (simp_all add: logger_info_def logger_warning_def logger_error_def)

lemma fetch_highlights_result: "fst (fetch_highlights env w) = fetched env"
  by (simp add: fetch_highlights_def fetched_def Let_def split: sum.splits exn.splits)

lemma fetch_highlights_world [simp]:
  "s3_requests (snd (fetch_highlights env w)) = s3_requests w"
  "s3_objects (snd (fetch_highlights env w)) = s3_objects w"
  "clock_reads (snd (fetch_highlights env w)) = clock_reads w"
  by (simp_all add: fetch_highlights_def Let_def split: sum.splits exn.splits)

lemma download_video_world [simp]:
  "s3_requests (snd (download_video env url dest w)) = s3_requests w"
  "s3_objects (snd (download_video env url dest w)) = s3_objects w"
  "clock_reads (snd (download_video env url dest w)) = clock_reads w"
  by (simp_all add: download_video_def Let_def split: option.splits)

lemma upload_file_to_s3_world [simp]:
  "s3_requests (snd (upload_file_to_s3 env b k p w)) = s3_requests w @ [UploadFile b k p]"
  "clock_reads (snd (upload_file_to_s3 env b k p w)) = clock_reads w"
  by (simp_all add: upload_file_to_s3_def Let_def split: option.splits exn.splits)

lemma upload_logs_requests:
  "s3_requests (snd (upload_logs env content w)) =
     s3_requests w @
     (if bucket_set (LOGS_BUCKET env)
      then [PutObject (the (LOGS_BUCKET env)) (log_key (datetime_now env (clock_reads w))) content]
      else [])"
  by (simp add: upload_logs_def Let_def split: option.splits exn.splits)

lemma save_highlights_requests:
  "s3_requests (snd (save_highlights env highlights w)) =
     s3_requests w @
     (if bucket_set (METADATA_BUCKET env) \<and> write_file env (mktemp env) = None
      then [UploadFile (the (METADATA_BUCKET env))
              (metadata_key (DEFAULT_LEAGUE env) (DEFAULT_DATE env)) (mktemp env)]
      else [])"
  by (simp add: save_highlights_def Let_def split: option.splits)

lemma save_highlights_clock [simp]:
  "clock_reads (snd (save_highlights env highlights w)) = clock_reads w"
  by (simp add: save_highlights_def Let_def split: option.splits)

lemma ingest_video_requests:
  "s3_requests (snd (ingest_video env video_url w)) =
     s3_requests w @
     (if bucket_set (VIDEOS_BUCKET env)
      then [UploadFile (the (VIDEOS_BUCKET env))
              (video_key (DEFAULT_LEAGUE env) (DEFAULT_DATE env) (video_filename video_url))
              (os_path_join (mkdtemp env) (video_filename video_url))]
      else [])"
  using local_video_path_name[of "mkdtemp env" video_url]
  by (simp add: ingest_video_def Let_def video_filename_def)

lemma ingest_video_clock [simp]:
  "clock_reads (snd (ingest_video env video_url w)) = clock_reads w"
  by (simp add: ingest_video_def Let_def)



lemma main_try_unfold:
  "main_try env w =
     (let w1 = snd (fetch_highlights env w)
      in if \<not> truthy (fetched env)
         then (Inl (RuntimeError ''No highlights fetched from API''), w1)
         else
           let w2 = snd (save_highlights env (fetched env) w1)
           in (case fst (save_highlights env (fetched env) w1) of
                 Inl e \<Rightarrow> (Inl e, w2)
               | Inr u \<Rightarrow>
                   (case selected env of
                      None \<Rightarrow> (Inl (RuntimeError ''No video URL found in highlights''), w2)
                    | Some video_url \<Rightarrow>
                        if video_url = []
                        then (Inl (RuntimeError ''No video URL found in highlights''), w2)
                        else
                          let w3 = snd (ingest_video env video_url w2)
                          in (case fst (ingest_video env video_url w2) of
                                Inl e \<Rightarrow> (Inl e, w3)
                              | Inr u' \<Rightarrow>
                                  upload_logs env ''Pipeline completed successfully''
                                    (logger_info ''Pipeline completed successfully'' w3)))))"
proof -
  have f: "fetch_highlights env w = (fetched env, snd (fetch_highlights env w))"
    using fetch_highlights_result[of env w] by (cases "fetch_highlights env w") auto
  show ?thesis
    unfolding main_try_def selected_def
    by (subst f) (simp add: Let_def split: prod.splits sum.splits option.splits)
qed

lemma main_unfold:
  "main env w =
     (let w0 = logger_info
                 (''Starting pipeline for '' @ DEFAULT_LEAGUE env @ '' '' @ DEFAULT_DATE env) w
      in case fst (main_try env w0) of
           Inr u \<Rightarrow> (Inr (), snd (main_try env w0))
         | Inl e \<Rightarrow>
             upload_logs env (''Pipeline failed: '' @ exn_str e)
               (logger_error (''Pipeline failed: '' @ exn_str e) (snd (main_try env w0))))"
  by (simp add: main_def Let_def split: prod.splits sum.splits)

lemma upload_logs_result:
  "fst (upload_logs env content w) =
     (if \<not> bucket_set (LOGS_BUCKET env) then Inr ()
      else case s3_put_object env (the (LOGS_BUCKET env))
                  (log_key (datetime_now env (clock_reads w))) content of
             None \<Rightarrow> Inr ()
           | Some e \<Rightarrow> (case e of ClientError m \<Rightarrow> Inr () | _ \<Rightarrow> Inl e))"
  by (simp add: upload_logs_def Let_def split: option.splits exn.splits)

lemma upload_logs_objects:
  "s3_objects (snd (upload_logs env content w)) =
     s3_objects w @
     (if bucket_set (LOGS_BUCKET env) \<and>
         s3_put_object env (the (LOGS_BUCKET env))
           (log_key (datetime_now env (clock_reads w))) content = None
      then [PutObject (the (LOGS_BUCKET env)) (log_key (datetime_now env (clock_reads w))) content]
      else [])"
  by (simp add: upload_logs_def Let_def split: option.splits exn.splits)

lemma keys_of_logger [simp]:
  "keys_of (logger_info m w) = keys_of w"
  "keys_of (logger_error m w) = keys_of w"
  "keys_of (logger_warning m w) = keys_of w"
  by (simp_all add: keys_of_def)

lemma keys_of_fetch [simp]: "keys_of (snd (fetch_highlights env w)) = keys_of w"
  by (simp add: keys_of_def)








lemmas run_defs = run_def main_def main_try_def world0_def fetch_highlights_def
  save_highlights_def ingest_video_def download_video_def upload_file_to_s3_def
  upload_logs_def logger_info_def logger_error_def logger_warning_def
  pick_random_video_from_json_def is_video_url_def startswith_def endswith_def
  highlights_url_def metadata_key_def video_key_def log_key_def strftime_stamp_def
  dec2_def dec4_def digit_def path_name_def path_parts_def os_path_join_def Let_def










lemma put_bodies_simps [simp]:
  "put_bodies (logger_info m w) = put_bodies w"
  "put_bodies (logger_error m w) = put_bodies w"
  "put_bodies (logger_warning m w) = put_bodies w"
  "put_bodies (snd (fetch_highlights env w)) = put_bodies w"
  "put_bodies (snd (save_highlights env highlights w)) = put_bodies w"
  "put_bodies (snd (ingest_video env video_url w)) = put_bodies w"
  by (simp_all add: put_bodies_def save_highlights_requests ingest_video_requests
     )

lemma put_bodies_upload_logs:
  "put_bodies (snd (upload_logs env content w)) =
     put_bodies w @ (if bucket_set (LOGS_BUCKET env) then [content] else [])"
  by (simp add: put_bodies_def upload_logs_requests)







text \<open>
  When \<open>put_object\<close> raises nothing but ClientErrors, \<open>upload_logs\<close> returns, and so
  does \<open>main\<close>, after exactly one log request (none without a log bucket).
\<close>

lemma upload_logs_returns:
  assumes "\<And>bucket key body e. s3_put_object env bucket key body = Some e \<Longrightarrow> \<exists>m. e = ClientError m"
  shows "fst (upload_logs env content w) = Inr ()"
proof (cases "s3_put_object env (the (LOGS_BUCKET env))
                (log_key (datetime_now env (clock_reads w))) content")
  case None
  then show ?thesis by (simp add: upload_logs_result)
next
  case (Some e)
  with assms obtain m where "e = ClientError m" by blast
  with Some show ?thesis by (simp add: upload_logs_result)
qed

lemma main_try_puts:
  assumes "\<And>bucket key body e. s3_put_object env bucket key body = Some e \<Longrightarrow> \<exists>m. e = ClientError m"
  shows "put_bodies (snd (main_try env w)) =
           put_bodies w @
           (case fst (main_try env w) of
              Inl e \<Rightarrow> []
            | Inr u \<Rightarrow> if bucket_set (LOGS_BUCKET env) then [''Pipeline completed successfully''] else [])"
  using upload_logs_returns[of env "''Pipeline completed successfully''", OF assms]
  by (simp add: main_try_unfold Let_def put_bodies_upload_logs split: sum.splits option.splits)

lemma main_logs_once_when_put_raises_client_errors_only:
  assumes "\<And>bucket key body e. s3_put_object env bucket key body = Some e \<Longrightarrow> \<exists>m. e = ClientError m"
  shows "fst (run env) = Inr () \<and>
         length (put_bodies (snd (run env))) = (if bucket_set (LOGS_BUCKET env) then 1 else 0)"
proof -
  let ?w0 = "logger_info
     (''Starting pipeline for '' @ DEFAULT_LEAGUE env @ '' '' @ DEFAULT_DATE env) world0"
  have p0: "put_bodies ?w0 = []" by (simp add: put_bodies_def world0_def)
  show ?thesis
  proof (cases "fst (main_try env ?w0)")
    case (Inr u)
    with main_try_puts[of env ?w0, OF assms] p0 show ?thesis
      by (simp add: run_def main_unfold)
  next
    case (Inl e)
    with main_try_puts[of env ?w0, OF assms] p0 upload_logs_returns[of env, OF assms] show ?thesis
      by (simp add: run_def main_unfold put_bodies_upload_logs)
  qed
qed

section \<open>Properties of the orchestrator: runs\<close>

text \<open>
  C10. When the fetch succeeds with a document that Python takes for false (an empty
  dict or list, \<open>null\<close>, \<open>false\<close>, zero, the empty string), the \<open>try\<close> of \<open>main\<close>
  raises RuntimeError \<open>No highlights fetched from API\<close> without sending any request to
  S3, the run sends only the log object (when a log bucket is configured), and the
  result, the requests and the stored objects of the run are those of a run whose
  fetch failed with an exception.
\<close>

theorem empty_document_aborts_like_fetch_failure:
  assumes "http_get_json env (highlights_url env) = Inr doc" and "\<not> truthy doc"
  shows "fst (main_try env w) = Inl (RuntimeError ''No highlights fetched from API'') \<and>
         s3_requests (snd (main_try env w)) = s3_requests w \<and>
         s3_requests (snd (run env)) =
           (if bucket_set (LOGS_BUCKET env)
            then [PutObject (the (LOGS_BUCKET env)) (log_key (datetime_now env 0))
                    ''Pipeline failed: No highlights fetched from API'']
            else []) \<and>
         fst (run (env\<lparr>http_get_json := \<lambda>url. Inl e\<rparr>)) = fst (run env) \<and>
         s3_requests (snd (run (env\<lparr>http_get_json := \<lambda>url. Inl e\<rparr>))) = s3_requests (snd (run env)) \<and>
         s3_objects (snd (run (env\<lparr>http_get_json := \<lambda>url. Inl e\<rparr>))) = s3_objects (snd (run env))"
proof -
  let ?env' = "env\<lparr>http_get_json := \<lambda>url. Inl e\<rparr>"
  have nt: "\<not> truthy (fetched env)"
    using assms by (simp add: fetched_def)
  have nt': "\<not> truthy (fetched ?env')"
    by (simp add: fetched_def)
  have t: "main_try env w = (Inl (RuntimeError ''No highlights fetched from API''),
             snd (fetch_highlights env w))" for w
    using nt by (simp add: main_try_unfold)
  have t': "main_try ?env' w = (Inl (RuntimeError ''No highlights fetched from API''),
             snd (fetch_highlights ?env' w))" for w
    using nt' by (simp add: main_try_unfold)
  have 1: "fst (main_try env w) = Inl (RuntimeError ''No highlights fetched from API'')"
    by (simp add: t)
  have 2: "s3_requests (snd (main_try env w)) = s3_requests w"
    by (simp add: t)
  have 3: "s3_requests (snd (run env)) =
           (if bucket_set (LOGS_BUCKET env)
            then [PutObject (the (LOGS_BUCKET env)) (log_key (datetime_now env 0))
                    ''Pipeline failed: No highlights fetched from API'']
            else [])"
    by (simp add: run_def main_unfold t upload_logs_requests world0_def)
  have 4: "fst (run ?env') = fst (run env)"
    by (simp add: run_def main_unfold t t' upload_logs_result world0_def)
  have 5: "s3_requests (snd (run ?env')) = s3_requests (snd (run env))"
    by (simp add: run_def main_unfold t t' upload_logs_requests world0_def)
  have 6: "s3_objects (snd (run ?env')) = s3_objects (snd (run env))"
    by (simp add: run_def main_unfold t t' upload_logs_objects world0_def)
  from 1 2 3 4 5 6 show ?thesis by blast
qed

theorem empty_document_aborts_like_fetch_failure_witness:
  "http_get_json empty_doc_env (highlights_url empty_doc_env) = Inr (JDict []) \<and>
   \<not> truthy (JDict []) \<and>
   fst (main_try empty_doc_env world0) = Inl (RuntimeError ''No highlights fetched from API'') \<and>
   s3_requests (snd (run empty_doc_env)) =
     [PutObject ''logs'' ''pipeline_log_20240501_123456.txt''
        ''Pipeline failed: No highlights fetched from API''] \<and>
   s3_requests (snd (run (empty_doc_env\<lparr>http_get_json := \<lambda>url. Inl (HTTPError ''503'')\<rparr>))) =
     s3_requests (snd (run empty_doc_env))"
proof -
  have g: "http_get_json empty_doc_env (highlights_url empty_doc_env) = Inr (JDict [])"
    by (simp add: empty_doc_env_def)
  have t: "\<not> truthy (JDict [])" by simp
  have l: "log_key (datetime_now empty_doc_env 0) = ''pipeline_log_20240501_123456.txt''"
    by (simp add: empty_doc_env_def demo_env_def log_key_def strftime_stamp_def dec2_def
        dec4_def digit_def)
  have b: "bucket_set (LOGS_BUCKET empty_doc_env)" "the (LOGS_BUCKET empty_doc_env) = ''logs''"
    by (simp_all add: empty_doc_env_def demo_env_def)
  from empty_document_aborts_like_fetch_failure[OF g t, of world0 "HTTPError ''503''"] l b g t
  show ?thesis by simp
qed









text \<open>
  C1. The log bucket is configured but cannot be reached: \<open>put_object\<close> raises an
  exception that is not a ClientError. The first \<open>upload_logs\<close>, at the end of the
  \<open>try\<close>, lets it pass; the handler of \<open>main\<close> catches it and calls \<open>upload_logs\<close> a
  second time; that call raises again, and the exception leaves \<open>main\<close>. Two log
  requests are sent and no log object is stored. (With ClientErrors only, \<open>main\<close>
  returns after one log request: \<open>main_logs_once_when_put_raises_client_errors_only\<close>.)
\<close>

theorem main_raises_when_log_upload_unreachable:
  "run log_upload_unreachable_env =
     (Inl (OtherException ''Could not connect to the endpoint URL''),
      \<lparr>log_records =
         [(INFO, ''Starting pipeline for Superettan 2024-05-01''),
          (INFO, ''Fetching highlights from https://sport-highlights-api.p.rapidapi.com/football.league?league=Superettan&date=2024-05-01''),
          (INFO, ''Highlights fetched successfully''),
          (INFO, ''Uploaded /tmp/tmpk3v9.json to s3://meta/highlights/Superettan/2024-05-01/highlights.json''),
          (INFO, ''Downloading video http://x/a.mp4''),
          (INFO, ''Video downloaded to /tmp/tmpq7x2/a.mp4''),
          (INFO, ''Uploaded /tmp/tmpq7x2/a.mp4 to s3://videos/incoming/Superettan/2024-05-01/a.mp4''),
          (INFO, ''Pipeline completed successfully''),
          (ERROR, ''Pipeline failed: Could not connect to the endpoint URL'')],
       s3_requests =
         [UploadFile ''meta'' ''highlights/Superettan/2024-05-01/highlights.json'' ''/tmp/tmpk3v9.json'',
          UploadFile ''videos'' ''incoming/Superettan/2024-05-01/a.mp4'' ''/tmp/tmpq7x2/a.mp4'',
          PutObject ''logs'' ''pipeline_log_20240501_123456.txt'' ''Pipeline completed successfully'',
          PutObject ''logs'' ''pipeline_log_20240501_123456.txt''
            ''Pipeline failed: Could not connect to the endpoint URL''],
       s3_objects =
         [UploadFile ''meta'' ''highlights/Superettan/2024-05-01/highlights.json'' ''/tmp/tmpk3v9.json'',
          UploadFile ''videos'' ''incoming/Superettan/2024-05-01/a.mp4'' ''/tmp/tmpq7x2/a.mp4''],
       clock_reads = 2\<rparr>)"
  by (simp add: log_upload_unreachable_env_def demo_env_def run_defs)

text \<open>
  C4. No video bucket is configured and the download fails with HTTP 404:
  \<open>download_video\<close> logs the error and returns \<open>None\<close>, \<open>main\<close> goes on, logs
  \<open>Pipeline completed successfully\<close>, stores that message as the log object and
  returns.
\<close>

theorem failed_download_reported_as_success:
  "fst (download_video download_fails_env ''http://x/a.mp4'' ''/tmp/tmpq7x2/a.mp4'' world0) = None \<and>
   run download_fails_env =
     (Inr (),
      \<lparr>log_records =
         [(INFO, ''Starting pipeline for Superettan 2024-05-01''),
          (INFO, ''Fetching highlights from https://sport-highlights-api.p.rapidapi.com/football.league?league=Superettan&date=2024-05-01''),
          (INFO, ''Highlights fetched successfully''),
          (INFO, ''Uploaded /tmp/tmpk3v9.json to s3://meta/highlights/Superettan/2024-05-01/highlights.json''),
          (INFO, ''Downloading video http://x/a.mp4''),
          (ERROR, ''Failed to download video: 404 Client Error: Not Found''),
          (INFO, ''Pipeline completed successfully''),
          (INFO, ''Logs uploaded to s3://logs/pipeline_log_20240501_123456.txt'')],
       s3_requests =
         [UploadFile ''meta'' ''highlights/Superettan/2024-05-01/highlights.json'' ''/tmp/tmpk3v9.json'',
          PutObject ''logs'' ''pipeline_log_20240501_123456.txt'' ''Pipeline completed successfully''],
       s3_objects =
         [UploadFile ''meta'' ''highlights/Superettan/2024-05-01/highlights.json'' ''/tmp/tmpk3v9.json'',
          PutObject ''logs'' ''pipeline_log_20240501_123456.txt'' ''Pipeline completed successfully''],
       clock_reads = 1\<rparr>)"
  by (simp add: download_fails_env_def demo_env_def run_defs)

end
